theory Spec2Isabelle
  imports Complex_Main
begin

section \<open>Python values handled by \<open>firebase_admin/project_config_mgt.py\<close>\<close>

text \<open>
  The module only moves decoded JSON around: the body returned by the HTTP client, the
  fragments produced by the configuration objects and the payload it assembles. A Python
  \<open>dict\<close> with string keys is an association list in insertion order (Python dicts keep
  insertion order, and the update mask is read off that order); a \<open>dict\<close> never holds a
  key twice, and \<open>dict_setitem\<close> below keeps it so.
\<close>

datatype pyfloat = FloatFinite real | FloatInf | FloatNegInf | FloatNaN

datatype pyval =
    PyNone
  | PyBool bool
  | PyInt int
  | PyFloat pyfloat
  | PyStr string
  | PyList "pyval list"
  | PyDict "(string \<times> pyval) list"

text \<open>Python truthiness, as used by \<open>if data:\<close> and \<open>if not payload:\<close>.\<close>

fun truthy :: "pyval \<Rightarrow> bool" where
  "truthy PyNone = False"
| "truthy (PyBool b) = b"
| "truthy (PyInt i) = (i \<noteq> 0)"
| "truthy (PyFloat f) = (f \<noteq> FloatFinite 0)"
| "truthy (PyStr s) = (s \<noteq> [])"
| "truthy (PyList xs) = (xs \<noteq> [])"
| "truthy (PyDict kvs) = (kvs \<noteq> [])"

text \<open>\<open>isinstance(v, dict)\<close>.\<close>

fun isinstance_dict :: "pyval \<Rightarrow> bool" where
  "isinstance_dict (PyDict kvs) = True"
| "isinstance_dict v = False"

text \<open>\<open>d.get(k)\<close>: the value bound to \<open>k\<close>, or \<open>None\<close> when the key is missing.\<close>

definition dict_get :: "(string \<times> pyval) list \<Rightarrow> string \<Rightarrow> pyval" where
  "dict_get d k = (case map_of d k of None \<Rightarrow> PyNone | Some v \<Rightarrow> v)"

text \<open>\<open>d[k] = v\<close>: a key already present keeps its position, a new key goes last.\<close>

fun dict_setitem :: "(string \<times> pyval) list \<Rightarrow> string \<Rightarrow> pyval \<Rightarrow> (string \<times> pyval) list" where
  "dict_setitem [] k v = [(k, v)]"
| "dict_setitem ((k', v') # d) k v =
     (if k' = k then (k, v) # d else (k', v') # dict_setitem d k v)"

text \<open>\<open>list(d)\<close> or iteration over \<open>d\<close>: the keys in insertion order.\<close>

definition dict_keys :: "(string \<times> pyval) list \<Rightarrow> string list" where
  "dict_keys d = map fst d"

text \<open>\<open>sep.join(xs)\<close>.\<close>

fun join :: "string \<Rightarrow> string list \<Rightarrow> string" where
  "join sep [] = []"
| "join sep [x] = x"
| "join sep (x # y # ys) = x @ sep @ join sep (y # ys)"

section \<open>Exceptions\<close>

text \<open>
  A message is either a literal or a \<open>'...{0}'.format(v)\<close> whose argument is kept as the
  value it formats, so that no model of \<open>str()\<close> is needed.
\<close>

datatype message = Literal string | Format string pyval

text \<open>
  An exception raised by a collaborator of this module (a configuration object, a server
  view constructor, the HTTP client) that this module does not catch: its class name and
  its text.
\<close>

datatype foreign_exception = ForeignException string string

text \<open>
  What the HTTP client can raise: a \<open>requests.exceptions.RequestException\<close>, the only
  class the module's \<open>except\<close> clauses catch, or anything else, which passes through.
\<close>

datatype request_exception = ConnectionError | HTTPError nat | InvalidJSONError nat

datatype raised = RequestException request_exception | OtherException foreign_exception

text \<open>
  The errors a caller of this module can see, by raise site: a \<open>ValueError\<close> raised by a
  \<open>raise\<close> statement of this module, the error returned by
  \<open>_auth_utils.handle_auth_backend_error\<close> and raised in an \<open>except\<close> clause, and a
  collaborator's exception passing through uncaught.
\<close>

datatype 'f error = ValueError message | BackendError 'f | Propagated foreign_exception

section \<open>\<open>ProjectConfig\<close>\<close>

record ProjectConfig =
  pc_data :: "(string \<times> pyval) list"

text \<open>\<open>ProjectConfig.__init__\<close>.\<close>

definition ProjectConfig_init :: "pyval \<Rightarrow> 'f error + ProjectConfig" where
  "ProjectConfig_init data =
     (case data of
        PyDict d \<Rightarrow> Inr \<lparr>pc_data = d\<rparr>
      | _ \<Rightarrow> Inl (ValueError (Format ''Invalid data argument in Project constructor: {0}'' data)))"

text \<open>
  The two properties of \<open>ProjectConfig\<close>. The classes \<open>MultiFactorServerConfig\<close> and
  \<open>EmailPrivacyServerConfig\<close> live in other modules; their constructors are parameters,
  returning the view or the exception they raise, which the property lets through. A
  property is a method on \<open>self\<close>: it returns its result together with the object as the
  call leaves it.
\<close>

definition ProjectConfig_multi_factor_config ::
  "(pyval \<Rightarrow> foreign_exception + 'v) \<Rightarrow> ProjectConfig
     \<Rightarrow> (foreign_exception + 'v option) \<times> ProjectConfig" where
  "ProjectConfig_multi_factor_config MultiFactorServerConfig self =
     (let data = dict_get (pc_data self) ''mfa'' in
      if truthy data then
        (case MultiFactorServerConfig data of
           Inl x \<Rightarrow> (Inl x, self)
         | Inr view \<Rightarrow> (Inr (Some view), self))
      else (Inr None, self))"

definition ProjectConfig_email_privacy_config ::
  "(pyval \<Rightarrow> foreign_exception + 'v) \<Rightarrow> ProjectConfig
     \<Rightarrow> (foreign_exception + 'v option) \<times> ProjectConfig" where
  "ProjectConfig_email_privacy_config EmailPrivacyServerConfig self =
     (let data = dict_get (pc_data self) ''emailPrivacyConfig'' in
      if truthy data then
        (case EmailPrivacyServerConfig data of
           Inl x \<Rightarrow> (Inl x, self)
         | Inr view \<Rightarrow> (Inr (Some view), self))
      else (Inr None, self))"

text \<open>Calling a property \<open>n\<close> times in a row: the results in order, and the object at the end.\<close>

fun call_times ::
  "(ProjectConfig \<Rightarrow> 'r \<times> ProjectConfig) \<Rightarrow> nat \<Rightarrow> ProjectConfig \<Rightarrow> 'r list \<times> ProjectConfig" where
  "call_times accessor 0 self = ([], self)"
| "call_times accessor (Suc n) self =
     (case accessor self of
        (r, self') \<Rightarrow> (case call_times accessor n self' of (rs, self'') \<Rightarrow> (r # rs, self'')))"

section \<open>\<open>_ProjectConfigManagementService\<close>\<close>

text \<open>
  One call of \<open>self.client.body(method, url=..., json=..., params=...)\<close>. The network is
  the only state the service touches: it is the list of the calls made so far, each
  operation returning the list as it leaves it.
\<close>

record request =
  req_method :: string
  req_url :: string
  req_json :: "pyval option"
  req_params :: "string option"

text \<open>
  An argument of \<open>update_project_config\<close>: any JSON-like value (\<open>None\<close> among them), an
  instance of \<open>MultiFactorConfig\<close> or an instance of \<open>EmailPrivacyConfig\<close>. Both classes
  live in other modules; \<open>'m\<close> and \<open>'e\<close> are their instances.
\<close>

datatype ('m, 'e) pyarg = Value pyval | MultiFactorConfig 'm | EmailPrivacyConfig 'e

fun isinstance_MultiFactorConfig :: "('m, 'e) pyarg \<Rightarrow> bool" where
  "isinstance_MultiFactorConfig (MultiFactorConfig m) = True"
| "isinstance_MultiFactorConfig a = False"

fun isinstance_EmailPrivacyConfig :: "('m, 'e) pyarg \<Rightarrow> bool" where
  "isinstance_EmailPrivacyConfig (EmailPrivacyConfig c) = True"
| "isinstance_EmailPrivacyConfig a = False"

text \<open>
  The collaborators of the service: the \<open>build_server_request\<close> methods of the two
  configuration classes (the fragment, or the exception raised), the HTTP client's
  \<open>body\<close> (the decoded body, or the exception raised) and
  \<open>_auth_utils.handle_auth_backend_error\<close>.
\<close>

record ('m, 'e, 'f) collaborators =
  mfa_build_server_request :: "'m \<Rightarrow> foreign_exception + pyval"
  epc_build_server_request :: "'e \<Rightarrow> foreign_exception + pyval"
  client_body :: "request \<Rightarrow> raised + pyval"
  handle_auth_backend_error :: "request_exception \<Rightarrow> 'f"

text \<open>
  Modelled from the spec: \<open>_auth_utils.build_update_mask\<close>, a helper of this repository
  that is not among the sources at hand. The spec: "Compute the update mask as the
  ordered list of top-level keys of the payload"; "mask keys are exactly the top-level
  keys of the payload, in the same traversal order used to build the payload".
\<close>

definition build_update_mask :: "(string \<times> pyval) list \<Rightarrow> string list" where
  "build_update_mask payload = dict_keys payload"

text \<open>
  The two calls the service makes: \<open>body('get', url='')\<close> and
  \<open>body('patch', url='', json=payload, params=params)\<close>.
\<close>

definition get_request :: request where
  "get_request = \<lparr>req_method = ''get'', req_url = [], req_json = None, req_params = None\<rparr>"

definition patch_request :: "(string \<times> pyval) list \<Rightarrow> string \<Rightarrow> request" where
  "patch_request payload query =
     \<lparr>req_method = ''patch'', req_url = [], req_json = Some (PyDict payload),
      req_params = Some query\<rparr>"

text \<open>\<open>_ProjectConfigManagementService.get_project_config\<close>.\<close>

definition get_project_config ::
  "('m, 'e, 'f) collaborators \<Rightarrow> request list \<Rightarrow> ('f error + ProjectConfig) \<times> request list" where
  "get_project_config svc net =
     (case client_body svc get_request of
        Inl (RequestException err) \<Rightarrow>
          (Inl (BackendError (handle_auth_backend_error svc err)), net @ [get_request])
      | Inl (OtherException x) \<Rightarrow> (Inl (Propagated x), net @ [get_request])
      | Inr body \<Rightarrow> (ProjectConfig_init body, net @ [get_request]))"

text \<open>
  \<open>_ProjectConfigManagementService.update_project_config\<close>, in two parts: the assembly of
  the payload (the statements before the \<open>try\<close>), which touches no state, and the call.
  The \<open>isinstance\<close> test of an argument is the case distinction on its class.
\<close>

definition build_payload ::
  "('m, 'e, 'f) collaborators \<Rightarrow> ('m, 'e) pyarg \<Rightarrow> ('m, 'e) pyarg \<Rightarrow> 'f error + (string \<times> pyval) list" where
  "build_payload svc multi_factor_config email_privacy_config =
     (let payload = [] in
      case (if multi_factor_config \<noteq> Value PyNone then
              (case multi_factor_config of
                 MultiFactorConfig m \<Rightarrow>
                   (case mfa_build_server_request svc m of
                      Inl x \<Rightarrow> Inl (Propagated x)
                    | Inr fragment \<Rightarrow> Inr (dict_setitem payload ''mfa'' fragment))
               | _ \<Rightarrow> Inl (ValueError (Literal ''multi_factor_config must be of type MultiFactorConfig.'')))
            else Inr payload) of
        Inl e \<Rightarrow> Inl e
      | Inr payload \<Rightarrow>
         (case (if email_privacy_config \<noteq> Value PyNone then
                  (case email_privacy_config of
                     EmailPrivacyConfig c \<Rightarrow>
                       (case epc_build_server_request svc c of
                          Inl x \<Rightarrow> Inl (Propagated x)
                        | Inr fragment \<Rightarrow> Inr (dict_setitem payload ''emailPrivacyConfig'' fragment))
                   | _ \<Rightarrow> Inl (ValueError (Literal ''email_privacy_config must be of type EmailPrivacyConfig.'')))
                else Inr payload) of
            Inl e \<Rightarrow> Inl e
          | Inr payload \<Rightarrow>
             (if \<not> truthy (PyDict payload) then
                Inl (ValueError (Literal ''At least one parameter must be specified for update.''))
              else Inr payload)))"

definition update_project_config ::
  "('m, 'e, 'f) collaborators \<Rightarrow> ('m, 'e) pyarg \<Rightarrow> ('m, 'e) pyarg \<Rightarrow> request list
     \<Rightarrow> ('f error + ProjectConfig) \<times> request list" where
  "update_project_config svc multi_factor_config email_privacy_config net =
     (case build_payload svc multi_factor_config email_privacy_config of
        Inl e \<Rightarrow> (Inl e, net)
      | Inr payload \<Rightarrow>
          (let update_mask = join '','' (build_update_mask payload);
               query = ''updateMask='' @ update_mask;
               req = patch_request payload query in
           (case client_body svc req of
              Inl (RequestException err) \<Rightarrow>
                (Inl (BackendError (handle_auth_backend_error svc err)), net @ [req])
            | Inl (OtherException x) \<Rightarrow> (Inl (Propagated x), net @ [req])
            | Inr body \<Rightarrow> (ProjectConfig_init body, net @ [req]))))"

section \<open>The HTTP client\<close>

text \<open>
  What one HTTP exchange can come to: no response at all, or a response with a status
  and a body that decodes as JSON (\<open>Some\<close>) or does not (\<open>None\<close>).
\<close>

datatype http_exchange = NetworkFailure | HttpResponse nat "pyval option"

text \<open>
  Modelled from the spec: \<open>_http_client.JsonHttpClient.body\<close>, the client of this
  repository that is not among the sources at hand. The spec: "any transport failure
  (network error, non-2xx HTTP status, malformed response) is translated into a
  backend-specific error kind"; "GET {base} -> 200 with JSON object body representing
  current config; non-2xx -> error". The failure reaches the service as the
  \<open>RequestException\<close> its \<open>except\<close> clause catches, carrying the status of the response.
\<close>

definition JsonHttpClient_body :: "(request \<Rightarrow> http_exchange) \<Rightarrow> request \<Rightarrow> raised + pyval" where
  "JsonHttpClient_body server req =
     (case server req of
        NetworkFailure \<Rightarrow> Inl (RequestException ConnectionError)
      | HttpResponse status body \<Rightarrow>
          (if 200 \<le> status \<and> status < 300 then
             (case body of
                None \<Rightarrow> Inl (RequestException (InvalidJSONError status))
              | Some v \<Rightarrow> Inr v)
           else Inl (RequestException (HTTPError status))))"

section \<open>A service to run the operations on\<close>

text \<open>
  A multi-factor configuration that is its state and serialises when the state is one of
  the two the backend knows, an email-privacy configuration that is its flag, a client
  over a given server, and an error mapping that keeps the transport error as it is.
\<close>

definition example_service ::
  "(request \<Rightarrow> http_exchange) \<Rightarrow> (string, bool, request_exception) collaborators" where
  "example_service server =
     \<lparr>mfa_build_server_request =
        (\<lambda>state. if state = ''ENABLED'' \<or> state = ''DISABLED''
                  then Inr (PyDict [(''state'', PyStr state)])
                  else Inl (ForeignException ''ValueError'' ''invalid state'')),
      epc_build_server_request =
        (\<lambda>flag. Inr (PyDict [(''enableImprovedEmailPrivacy'', PyBool flag)])),
      client_body = JsonHttpClient_body server,
      handle_auth_backend_error = (\<lambda>err. err)\<rparr>"

text \<open>A server view that wraps the mapping it is built from, and refuses anything else.\<close>

datatype example_view = ExampleView "(string \<times> pyval) list"

definition example_view_init :: "pyval \<Rightarrow> foreign_exception + example_view" where
  "example_view_init data =
     (case data of
        PyDict d \<Rightarrow> Inr (ExampleView d)
      | _ \<Rightarrow> Inl (ForeignException ''ValueError'' ''not a dict''))"

section \<open>Construction of a \<open>ProjectConfig\<close>\<close>

text \<open>
  C6. Constructing a \<open>ProjectConfig\<close> from a raw value that is not a mapping (a scalar, a
  list) fails with a \<open>ValueError\<close>; constructing one from any mapping succeeds, and the
  object wraps that mapping.
\<close>

theorem ProjectConfig_init_mapping_only:
  "(isinstance_dict data \<longrightarrow> (\<exists>d. data = PyDict d \<and> ProjectConfig_init data = Inr \<lparr>pc_data = d\<rparr>))
   \<and> (\<not> isinstance_dict data \<longrightarrow>
        ProjectConfig_init data
          = Inl (ValueError (Format ''Invalid data argument in Project constructor: {0}'' data)))"
  by (cases data) (simp_all add: ProjectConfig_init_def)

theorem ProjectConfig_init_mapping_only_witness:
  "ProjectConfig_init (PyDict [(''mfa'', PyDict [(''state'', PyStr ''ENABLED'')])])
     = (Inr \<lparr>pc_data = [(''mfa'', PyDict [(''state'', PyStr ''ENABLED'')])]\<rparr> :: unit error + ProjectConfig)
   \<and> ProjectConfig_init (PyList [PyInt 1])
     = (Inl (ValueError (Format ''Invalid data argument in Project constructor: {0}'' (PyList [PyInt 1])))
          :: unit error + ProjectConfig)
   \<and> ProjectConfig_init (PyInt 7)
     = (Inl (ValueError (Format ''Invalid data argument in Project constructor: {0}'' (PyInt 7)))
          :: unit error + ProjectConfig)"
  using ProjectConfig_init_mapping_only [of "PyDict [(''mfa'', PyDict [(''state'', PyStr ''ENABLED'')])]"]
    ProjectConfig_init_mapping_only [of "PyList [PyInt 1]"]
    ProjectConfig_init_mapping_only [of "PyInt 7"]
  by simp

section \<open>The accessors of a \<open>ProjectConfig\<close>\<close>

lemma multi_factor_config_self: "snd (ProjectConfig_multi_factor_config view_init self) = self"
  by (simp add: ProjectConfig_multi_factor_config_def Let_def split: sum.split)

lemma email_privacy_config_self: "snd (ProjectConfig_email_privacy_config view_init self) = self"
  by (simp add: ProjectConfig_email_privacy_config_def Let_def split: sum.split)

lemma multi_factor_config_truthy:
  "truthy (dict_get (pc_data self) ''mfa'') \<Longrightarrow>
   fst (ProjectConfig_multi_factor_config view_init self)
     = (case view_init (dict_get (pc_data self) ''mfa'') of
          Inl x \<Rightarrow> Inl x | Inr view \<Rightarrow> Inr (Some view))"
  by (simp add: ProjectConfig_multi_factor_config_def Let_def split: sum.split)

lemma email_privacy_config_truthy:
  "truthy (dict_get (pc_data self) ''emailPrivacyConfig'') \<Longrightarrow>
   fst (ProjectConfig_email_privacy_config view_init self)
     = (case view_init (dict_get (pc_data self) ''emailPrivacyConfig'') of
          Inl x \<Rightarrow> Inl x | Inr view \<Rightarrow> Inr (Some view))"
  by (simp add: ProjectConfig_email_privacy_config_def Let_def split: sum.split)

lemma multi_factor_config_falsy:
  "\<not> truthy (dict_get (pc_data self) ''mfa'') \<Longrightarrow>
   ProjectConfig_multi_factor_config view_init self = (Inr None, self)"
  by (simp add: ProjectConfig_multi_factor_config_def)

lemma email_privacy_config_falsy:
  "\<not> truthy (dict_get (pc_data self) ''emailPrivacyConfig'') \<Longrightarrow>
   ProjectConfig_email_privacy_config view_init self = (Inr None, self)"
  by (simp add: ProjectConfig_email_privacy_config_def)

lemma lifted_view_not_absent:
  "(case r of Inl x \<Rightarrow> Inl x | Inr view \<Rightarrow> Inr (Some view)) \<noteq> Inr None"
  by (cases r) simp_all

text \<open>
  C5. For a \<open>ProjectConfig\<close> constructed from the mapping
  \<open>{"mfa": m1, "emailPrivacyConfig": m2}\<close> with \<open>m1\<close> and \<open>m2\<close> non-empty mappings, each
  accessor hands its nested mapping to the server-view constructor and returns what the
  constructor yields: the typed view whenever the constructor builds one, and never
  absent. For a \<open>ProjectConfig\<close> constructed from the empty mapping both accessors
  return absent (\<open>None\<close>).
\<close>

theorem accessors_on_full_and_empty_mapping:
  assumes "m1 \<noteq> []" and "m2 \<noteq> []"
  shows "(\<exists>self. (ProjectConfig_init (PyDict [(''mfa'', PyDict m1), (''emailPrivacyConfig'', PyDict m2)])
                    :: 'f error + ProjectConfig) = Inr self
            \<and> (\<forall>view. mfa_view_init (PyDict m1) = Inr view \<longrightarrow>
                  fst (ProjectConfig_multi_factor_config mfa_view_init self)
                    = Inr (Some view))
            \<and> fst (ProjectConfig_multi_factor_config mfa_view_init self)
                 \<noteq> Inr None
            \<and> (\<forall>view. epc_view_init (PyDict m2) = Inr view \<longrightarrow>
                  fst (ProjectConfig_email_privacy_config epc_view_init self)
                    = Inr (Some view))
            \<and> fst (ProjectConfig_email_privacy_config epc_view_init self)
                 \<noteq> Inr None)
       \<and> (\<exists>self. (ProjectConfig_init (PyDict []) :: 'f error + ProjectConfig) = Inr self
            \<and> fst (ProjectConfig_multi_factor_config mfa_view_init self)
                 = Inr None
            \<and> fst (ProjectConfig_email_privacy_config epc_view_init self)
                 = Inr None)"
proof -
  let ?full = "\<lparr>pc_data = [(''mfa'', PyDict m1), (''emailPrivacyConfig'', PyDict m2)]\<rparr>"
  have "fst (ProjectConfig_multi_factor_config mfa_view_init ?full)
          = (case mfa_view_init (PyDict m1) of
               Inl x \<Rightarrow> Inl x | Inr view \<Rightarrow> Inr (Some view))"
    using assms(1) multi_factor_config_truthy [of ?full mfa_view_init] by (simp add: dict_get_def)
  moreover have "fst (ProjectConfig_email_privacy_config epc_view_init ?full)
          = (case epc_view_init (PyDict m2) of
               Inl x \<Rightarrow> Inl x | Inr view \<Rightarrow> Inr (Some view))"
    using assms(2) email_privacy_config_truthy [of ?full epc_view_init] by (simp add: dict_get_def)
  ultimately have full: "\<exists>self. (ProjectConfig_init (PyDict [(''mfa'', PyDict m1), (''emailPrivacyConfig'', PyDict m2)])
                    :: 'f error + ProjectConfig) = Inr self
            \<and> (\<forall>view. mfa_view_init (PyDict m1) = Inr view \<longrightarrow>
                  fst (ProjectConfig_multi_factor_config mfa_view_init self)
                    = Inr (Some view))
            \<and> fst (ProjectConfig_multi_factor_config mfa_view_init self)
                 \<noteq> Inr None
            \<and> (\<forall>view. epc_view_init (PyDict m2) = Inr view \<longrightarrow>
                  fst (ProjectConfig_email_privacy_config epc_view_init self)
                    = Inr (Some view))
            \<and> fst (ProjectConfig_email_privacy_config epc_view_init self)
                 \<noteq> Inr None"
    by (simp add: ProjectConfig_init_def lifted_view_not_absent)
  have "\<exists>self. (ProjectConfig_init (PyDict []) :: 'f error + ProjectConfig) = Inr self
            \<and> fst (ProjectConfig_multi_factor_config mfa_view_init self)
                 = Inr None
            \<and> fst (ProjectConfig_email_privacy_config epc_view_init self)
                 = Inr None"
    by (simp add: ProjectConfig_init_def ProjectConfig_multi_factor_config_def
        ProjectConfig_email_privacy_config_def dict_get_def)
  with full show ?thesis by blast
qed

theorem accessors_on_full_and_empty_mapping_witness:
  "fst (ProjectConfig_multi_factor_config example_view_init
          \<lparr>pc_data = [(''mfa'', PyDict [(''state'', PyStr ''ENABLED'')]),
                      (''emailPrivacyConfig'', PyDict [(''enableImprovedEmailPrivacy'', PyBool True)])]\<rparr>)
     = (Inr (Some (ExampleView [(''state'', PyStr ''ENABLED'')])))
   \<and> fst (ProjectConfig_email_privacy_config example_view_init
          \<lparr>pc_data = [(''mfa'', PyDict [(''state'', PyStr ''ENABLED'')]),
                      (''emailPrivacyConfig'', PyDict [(''enableImprovedEmailPrivacy'', PyBool True)])]\<rparr>)
     = (Inr (Some (ExampleView [(''enableImprovedEmailPrivacy'', PyBool True)])))
   \<and> fst (ProjectConfig_multi_factor_config example_view_init \<lparr>pc_data = []\<rparr>)
     = (Inr None)
   \<and> fst (ProjectConfig_email_privacy_config example_view_init \<lparr>pc_data = []\<rparr>)
     = (Inr None)"
  using accessors_on_full_and_empty_mapping
    [of "[(''state'', PyStr ''ENABLED'')]" "[(''enableImprovedEmailPrivacy'', PyBool True)]",
     where ?'f = unit and mfa_view_init = example_view_init and epc_view_init = example_view_init]
  by (simp add: ProjectConfig_init_def example_view_init_def)

text \<open>
  C7. When the wrapped mapping binds \<open>'mfa'\<close> (or \<open>'emailPrivacyConfig'\<close>) to a falsy value
  (\<open>None\<close>, \<open>False\<close>, zero, an empty string, list or mapping), the accessor returns \<open>None\<close>
  and builds no view. Absence is decided by the truthiness of the stored value: the
  accessor returns \<open>None\<close> exactly when the value \<open>get\<close> finds is falsy, which a missing key
  brings about as well.
\<close>

theorem accessor_absent_iff_falsy:
  "(\<forall>v. map_of (pc_data self) ''mfa'' = Some v \<and> \<not> truthy v \<longrightarrow>
        ProjectConfig_multi_factor_config mfa_view_init self = (Inr None, self))
   \<and> (\<forall>v. map_of (pc_data self) ''emailPrivacyConfig'' = Some v \<and> \<not> truthy v \<longrightarrow>
        ProjectConfig_email_privacy_config epc_view_init self = (Inr None, self))
   \<and> (fst (ProjectConfig_multi_factor_config mfa_view_init self) = Inr None
        \<longleftrightarrow> \<not> truthy (dict_get (pc_data self) ''mfa''))
   \<and> (fst (ProjectConfig_email_privacy_config epc_view_init self) = Inr None
        \<longleftrightarrow> \<not> truthy (dict_get (pc_data self) ''emailPrivacyConfig''))"
proof -
  have "ProjectConfig_multi_factor_config mfa_view_init self = (Inr None, self)"
    if "map_of (pc_data self) ''mfa'' = Some v" and "\<not> truthy v" for v
    using that multi_factor_config_falsy [of self mfa_view_init] by (simp add: dict_get_def)
  moreover have "ProjectConfig_email_privacy_config epc_view_init self = (Inr None, self)"
    if "map_of (pc_data self) ''emailPrivacyConfig'' = Some v" and "\<not> truthy v" for v
    using that email_privacy_config_falsy [of self epc_view_init] by (simp add: dict_get_def)
  moreover have "fst (ProjectConfig_multi_factor_config mfa_view_init self) = Inr None
        \<longleftrightarrow> \<not> truthy (dict_get (pc_data self) ''mfa'')"
    using multi_factor_config_falsy [of self mfa_view_init]
      multi_factor_config_truthy [of self mfa_view_init]
      lifted_view_not_absent [of "mfa_view_init (dict_get (pc_data self) ''mfa'')"]
    by (cases "truthy (dict_get (pc_data self) ''mfa'')") simp_all
  moreover have "fst (ProjectConfig_email_privacy_config epc_view_init self) = Inr None
        \<longleftrightarrow> \<not> truthy (dict_get (pc_data self) ''emailPrivacyConfig'')"
    using email_privacy_config_falsy [of self epc_view_init]
      email_privacy_config_truthy [of self epc_view_init]
      lifted_view_not_absent [of "epc_view_init (dict_get (pc_data self) ''emailPrivacyConfig'')"]
    by (cases "truthy (dict_get (pc_data self) ''emailPrivacyConfig'')") simp_all
  ultimately show ?thesis by blast
qed

theorem accessor_absent_iff_falsy_witness:
  "ProjectConfig_multi_factor_config example_view_init
      \<lparr>pc_data = [(''mfa'', PyDict []), (''emailPrivacyConfig'', PyStr [])]\<rparr>
     = (Inr None,
        \<lparr>pc_data = [(''mfa'', PyDict []), (''emailPrivacyConfig'', PyStr [])]\<rparr>)
   \<and> ProjectConfig_email_privacy_config example_view_init
      \<lparr>pc_data = [(''mfa'', PyDict []), (''emailPrivacyConfig'', PyStr [])]\<rparr>
     = (Inr None,
        \<lparr>pc_data = [(''mfa'', PyDict []), (''emailPrivacyConfig'', PyStr [])]\<rparr>)"
  using accessor_absent_iff_falsy
    [of "\<lparr>pc_data = [(''mfa'', PyDict []), (''emailPrivacyConfig'', PyStr [])]\<rparr>"
        example_view_init example_view_init]
  by simp

lemma call_times_unchanged:
  assumes "\<And>s. snd (accessor s) = s"
  shows "call_times accessor n self = (replicate n (fst (accessor self)), self)"
proof (induction n)
  case 0
  show ?case by simp
next
  case (Suc n)
  obtain r where r: "accessor self = (r, self)"
    using assms [of self] by (cases "accessor self") simp
  with Suc.IH have "call_times accessor n self = (replicate n r, self)"
    by simp
  with r show ?case by simp
qed

text \<open>
  C9. The accessors are idempotent and free of side effects: calling one any number of
  times in a row leaves the \<open>ProjectConfig\<close>, and so the mapping it wraps, as it was, and
  every call returns what the first call returned.
\<close>

theorem accessors_idempotent:
  "call_times (ProjectConfig_multi_factor_config mfa_view_init) n self
     = (replicate n (fst (ProjectConfig_multi_factor_config mfa_view_init self)), self)
   \<and> call_times (ProjectConfig_email_privacy_config epc_view_init) n self
     = (replicate n (fst (ProjectConfig_email_privacy_config epc_view_init self)), self)"
  by (simp add: call_times_unchanged multi_factor_config_self email_privacy_config_self)

theorem accessors_idempotent_witness:
  "call_times (ProjectConfig_multi_factor_config example_view_init) 3
      \<lparr>pc_data = [(''mfa'', PyDict [(''state'', PyStr ''ENABLED'')])]\<rparr>
     = (replicate 3 (Inr (Some (ExampleView [(''state'', PyStr ''ENABLED'')]))),
        \<lparr>pc_data = [(''mfa'', PyDict [(''state'', PyStr ''ENABLED'')])]\<rparr>)
   \<and> call_times (ProjectConfig_email_privacy_config example_view_init) 3
      \<lparr>pc_data = [(''mfa'', PyDict [(''state'', PyStr ''ENABLED'')])]\<rparr>
     = (replicate 3 (Inr None),
        \<lparr>pc_data = [(''mfa'', PyDict [(''state'', PyStr ''ENABLED'')])]\<rparr>)"
  using accessors_idempotent
    [of example_view_init 3 "\<lparr>pc_data = [(''mfa'', PyDict [(''state'', PyStr ''ENABLED'')])]\<rparr>"
        example_view_init]
  by (simp add: ProjectConfig_multi_factor_config_def ProjectConfig_email_privacy_config_def
      dict_get_def example_view_init_def)

section \<open>\<open>update_project_config\<close>: validation and payload\<close>

lemma build_payload_wrong_multi_factor:
  "a \<noteq> Value PyNone \<Longrightarrow> \<not> isinstance_MultiFactorConfig a \<Longrightarrow>
   build_payload svc a b
     = Inl (ValueError (Literal ''multi_factor_config must be of type MultiFactorConfig.''))"
  by (cases a) (simp_all add: build_payload_def)

lemma build_payload_wrong_email_privacy:
  "b \<noteq> Value PyNone \<Longrightarrow> \<not> isinstance_EmailPrivacyConfig b \<Longrightarrow>
   build_payload svc (Value PyNone) b
     = Inl (ValueError (Literal ''email_privacy_config must be of type EmailPrivacyConfig.''))"
  by (cases b) (simp_all add: build_payload_def)

lemma build_payload_wrong_email_privacy_after:
  "b \<noteq> Value PyNone \<Longrightarrow> \<not> isinstance_EmailPrivacyConfig b \<Longrightarrow>
   build_payload svc (MultiFactorConfig m) b
     = (case mfa_build_server_request svc m of
          Inl x \<Rightarrow> Inl (Propagated x)
        | Inr fragment \<Rightarrow>
            Inl (ValueError (Literal ''email_privacy_config must be of type EmailPrivacyConfig.'')))"
  by (cases b) (simp_all add: build_payload_def split: sum.split)

lemma update_stops_on_error:
  "build_payload svc a b = Inl e \<Longrightarrow> update_project_config svc a b net = (Inl e, net)"
  by (simp add: update_project_config_def)

lemma update_calls_once:
  "build_payload svc a b = Inr payload \<Longrightarrow>
   snd (update_project_config svc a b net)
     = net @ [patch_request payload (''updateMask='' @ join '','' (build_update_mask payload))]"
  by (simp add: update_project_config_def Let_def split: sum.split raised.split)

lemma build_payload_empty_iff:
  "build_payload svc a b
     = Inl (ValueError (Literal ''At least one parameter must be specified for update.''))
   \<longleftrightarrow> a = Value PyNone \<and> b = Value PyNone"
  by (cases a; cases b)
    (auto simp: build_payload_def Let_def split: sum.splits pyarg.splits if_splits)

lemma build_payload_keys:
  "build_payload svc a b = Inr payload \<Longrightarrow>
   dict_keys payload
     = (if isinstance_MultiFactorConfig a then [''mfa''] else [])
       @ (if isinstance_EmailPrivacyConfig b then [''emailPrivacyConfig''] else [])"
  by (cases a; cases b)
    (auto simp: build_payload_def dict_keys_def Let_def split: sum.splits pyarg.splits if_splits)

lemma ProjectConfig_init_no_literal: "ProjectConfig_init body \<noteq> Inl (ValueError (Literal s))"
  by (cases body) (simp_all add: ProjectConfig_init_def)

text \<open>
  C1. For every valid multi-factor configuration (one whose \<open>build_server_request\<close>
  returns a fragment), \<open>update_project_config\<close> with only \<open>multi_factor_config\<close> set
  builds the payload \<open>{'mfa': fragment}\<close>, whose only key is \<open>'mfa'\<close>; the update mask is
  the string \<open>mfa\<close>, and the one call made is the \<open>patch\<close> with that payload and the
  query parameter \<open>updateMask=mfa\<close>.
\<close>

theorem update_only_multi_factor_config:
  assumes "mfa_build_server_request svc m = Inr fragment"
  shows "build_payload svc (MultiFactorConfig m) (Value PyNone) = Inr [(''mfa'', fragment)]
       \<and> dict_keys [(''mfa'', fragment)] = [''mfa'']
       \<and> join '','' (build_update_mask [(''mfa'', fragment)]) = ''mfa''
       \<and> snd (update_project_config svc (MultiFactorConfig m) (Value PyNone) net)
           = net @ [\<lparr>req_method = ''patch'', req_url = [],
                      req_json = Some (PyDict [(''mfa'', fragment)]),
                      req_params = Some ''updateMask=mfa''\<rparr>]"
proof -
  have payload: "build_payload svc (MultiFactorConfig m) (Value PyNone) = Inr [(''mfa'', fragment)]"
    using assms by (simp add: build_payload_def)
  have mask: "join '','' (build_update_mask [(''mfa'', fragment)]) = ''mfa''"
    by (simp add: build_update_mask_def dict_keys_def)
  show ?thesis
    using payload mask update_calls_once [OF payload, of net]
    by (simp add: dict_keys_def patch_request_def)
qed

theorem update_only_multi_factor_config_witness:
  "snd (update_project_config (example_service (\<lambda>req. HttpResponse 200 (Some (PyDict []))))
          (MultiFactorConfig ''ENABLED'') (Value PyNone) [])
     = [\<lparr>req_method = ''patch'', req_url = [],
          req_json = Some (PyDict [(''mfa'', PyDict [(''state'', PyStr ''ENABLED'')])]),
          req_params = Some ''updateMask=mfa''\<rparr>]"
  using update_only_multi_factor_config
    [of "example_service (\<lambda>req. HttpResponse 200 (Some (PyDict [])))" "''ENABLED''"
        "PyDict [(''state'', PyStr ''ENABLED'')]" "[]"]
  by (simp add: example_service_def)

text \<open>
  C2. For every pair of valid multi-factor and email-privacy configurations,
  \<open>update_project_config\<close> with both set builds the payload with the keys \<open>'mfa'\<close> then
  \<open>'emailPrivacyConfig'\<close>, in that order; the update mask, the payload's top-level keys
  in order joined with commas, is the string \<open>mfa,emailPrivacyConfig\<close>.
\<close>

theorem update_both_configs:
  assumes "mfa_build_server_request svc m = Inr mfa_fragment"
    and "epc_build_server_request svc c = Inr epc_fragment"
  shows "build_payload svc (MultiFactorConfig m) (EmailPrivacyConfig c)
           = Inr [(''mfa'', mfa_fragment), (''emailPrivacyConfig'', epc_fragment)]
       \<and> dict_keys [(''mfa'', mfa_fragment), (''emailPrivacyConfig'', epc_fragment)]
           = [''mfa'', ''emailPrivacyConfig'']
       \<and> join '','' (build_update_mask [(''mfa'', mfa_fragment), (''emailPrivacyConfig'', epc_fragment)])
           = ''mfa,emailPrivacyConfig''
       \<and> snd (update_project_config svc (MultiFactorConfig m) (EmailPrivacyConfig c) net)
           = net @ [\<lparr>req_method = ''patch'', req_url = [],
                      req_json = Some (PyDict [(''mfa'', mfa_fragment),
                                               (''emailPrivacyConfig'', epc_fragment)]),
                      req_params = Some ''updateMask=mfa,emailPrivacyConfig''\<rparr>]"
proof -
  have payload: "build_payload svc (MultiFactorConfig m) (EmailPrivacyConfig c)
           = Inr [(''mfa'', mfa_fragment), (''emailPrivacyConfig'', epc_fragment)]"
    using assms by (simp add: build_payload_def)
  have mask: "join '','' (build_update_mask [(''mfa'', mfa_fragment), (''emailPrivacyConfig'', epc_fragment)])
           = ''mfa,emailPrivacyConfig''"
    by (simp add: build_update_mask_def dict_keys_def)
  show ?thesis
    using payload mask update_calls_once [OF payload, of net]
    by (simp add: dict_keys_def patch_request_def)
qed

theorem update_both_configs_witness:
  "snd (update_project_config (example_service (\<lambda>req. HttpResponse 200 (Some (PyDict []))))
          (MultiFactorConfig ''DISABLED'') (EmailPrivacyConfig True) [])
     = [\<lparr>req_method = ''patch'', req_url = [],
          req_json = Some (PyDict [(''mfa'', PyDict [(''state'', PyStr ''DISABLED'')]),
                                   (''emailPrivacyConfig'',
                                    PyDict [(''enableImprovedEmailPrivacy'', PyBool True)])]),
          req_params = Some ''updateMask=mfa,emailPrivacyConfig''\<rparr>]"
  using update_both_configs
    [of "example_service (\<lambda>req. HttpResponse 200 (Some (PyDict [])))" "''DISABLED''"
        "PyDict [(''state'', PyStr ''DISABLED'')]" True
        "PyDict [(''enableImprovedEmailPrivacy'', PyBool True)]" "[]"]
  by (simp add: example_service_def)

text \<open>
  C3. \<open>update_project_config\<close> with neither argument supplied raises the \<open>ValueError\<close>
  "At least one parameter must be specified for update." and makes no network call:
  whatever the client, the list of calls is as it was.
\<close>

theorem update_without_arguments:
  "update_project_config svc (Value PyNone) (Value PyNone) net
     = (Inl (ValueError (Literal ''At least one parameter must be specified for update.'')), net)"
  by (simp add: update_project_config_def build_payload_def)

theorem update_without_arguments_witness:
  "update_project_config (example_service (\<lambda>req. HttpResponse 200 (Some (PyDict []))))
      (Value PyNone) (Value PyNone) []
     = (Inl (ValueError (Literal ''At least one parameter must be specified for update.'')), [])"
  using update_without_arguments
    [of "example_service (\<lambda>req. HttpResponse 200 (Some (PyDict [])))" "[]"]
  by simp

text \<open>
  C4. An argument that is supplied (not \<open>None\<close>) and is not an instance of its expected
  class makes \<open>update_project_config\<close> fail with no network call. The arguments are
  checked multi-factor first: a wrong \<open>multi_factor_config\<close> raises its \<open>ValueError\<close>
  whatever \<open>email_privacy_config\<close> is; a wrong \<open>email_privacy_config\<close> raises its
  \<open>ValueError\<close> when \<open>multi_factor_config\<close> is absent or is an instance that serialises,
  and when the instance's own \<open>build_server_request\<close> raises, that exception comes first.
\<close>

theorem update_wrong_type_fails_before_network:
  "(a \<noteq> Value PyNone \<and> \<not> isinstance_MultiFactorConfig a \<longrightarrow>
      update_project_config svc a b net
        = (Inl (ValueError (Literal ''multi_factor_config must be of type MultiFactorConfig.'')), net))
   \<and> (b \<noteq> Value PyNone \<and> \<not> isinstance_EmailPrivacyConfig b \<longrightarrow>
        (\<exists>e. update_project_config svc a b net = (Inl e, net))
        \<and> (a = Value PyNone \<longrightarrow>
             update_project_config svc a b net
               = (Inl (ValueError (Literal ''email_privacy_config must be of type EmailPrivacyConfig.'')), net))
        \<and> (\<forall>m fragment. a = MultiFactorConfig m \<and> mfa_build_server_request svc m = Inr fragment \<longrightarrow>
             update_project_config svc a b net
               = (Inl (ValueError (Literal ''email_privacy_config must be of type EmailPrivacyConfig.'')), net))
        \<and> (\<forall>m x. a = MultiFactorConfig m \<and> mfa_build_server_request svc m = Inl x \<longrightarrow>
             update_project_config svc a b net = (Inl (Propagated x), net)))"
proof -
  have first: "update_project_config svc a b net
        = (Inl (ValueError (Literal ''multi_factor_config must be of type MultiFactorConfig.'')), net)"
    if "a \<noteq> Value PyNone" and "\<not> isinstance_MultiFactorConfig a"
    using that by (simp add: build_payload_wrong_multi_factor update_stops_on_error)
  have second: "(\<exists>e. update_project_config svc a b net = (Inl e, net))
        \<and> (a = Value PyNone \<longrightarrow>
             update_project_config svc a b net
               = (Inl (ValueError (Literal ''email_privacy_config must be of type EmailPrivacyConfig.'')), net))
        \<and> (\<forall>m fragment. a = MultiFactorConfig m \<and> mfa_build_server_request svc m = Inr fragment \<longrightarrow>
             update_project_config svc a b net
               = (Inl (ValueError (Literal ''email_privacy_config must be of type EmailPrivacyConfig.'')), net))
        \<and> (\<forall>m x. a = MultiFactorConfig m \<and> mfa_build_server_request svc m = Inl x \<longrightarrow>
             update_project_config svc a b net = (Inl (Propagated x), net))"
    if b: "b \<noteq> Value PyNone" "\<not> isinstance_EmailPrivacyConfig b"
  proof (cases "a \<noteq> Value PyNone \<and> \<not> isinstance_MultiFactorConfig a")
    case True
    then show ?thesis using first by (cases a) auto
  next
    case False
    show ?thesis
    proof (cases a)
      case (Value v)
      with False have "a = Value PyNone" by simp
      then show ?thesis
        using build_payload_wrong_email_privacy [OF b, of svc]
        by (simp add: update_stops_on_error)
    next
      case (MultiFactorConfig m)
      then show ?thesis
        using build_payload_wrong_email_privacy_after [OF b, of svc m]
        by (cases "mfa_build_server_request svc m") (simp_all add: update_stops_on_error)
    next
      case (EmailPrivacyConfig c)
      with False show ?thesis by simp
    qed
  qed
  from first second show ?thesis by blast
qed

theorem update_wrong_type_fails_before_network_witness:
  "update_project_config (example_service (\<lambda>req. HttpResponse 200 (Some (PyDict []))))
      (Value (PyStr ''ENABLED'')) (Value (PyInt 1)) []
     = (Inl (ValueError (Literal ''multi_factor_config must be of type MultiFactorConfig.'')), [])
   \<and> update_project_config (example_service (\<lambda>req. HttpResponse 200 (Some (PyDict []))))
      (Value PyNone) (MultiFactorConfig ''ENABLED'') []
     = (Inl (ValueError (Literal ''email_privacy_config must be of type EmailPrivacyConfig.'')), [])
   \<and> update_project_config (example_service (\<lambda>req. HttpResponse 200 (Some (PyDict []))))
      (MultiFactorConfig ''ENABLED'') (Value (PyBool True)) []
     = (Inl (ValueError (Literal ''email_privacy_config must be of type EmailPrivacyConfig.'')), [])
   \<and> update_project_config (example_service (\<lambda>req. HttpResponse 200 (Some (PyDict []))))
      (MultiFactorConfig ''unknown'') (Value (PyBool True)) []
     = (Inl (Propagated (ForeignException ''ValueError'' ''invalid state'')), [])"
  using update_wrong_type_fails_before_network
    [of "Value (PyStr ''ENABLED'')" "example_service (\<lambda>req. HttpResponse 200 (Some (PyDict [])))"
        "Value (PyInt 1)" "[]"]
    update_wrong_type_fails_before_network
    [of "Value PyNone" "example_service (\<lambda>req. HttpResponse 200 (Some (PyDict [])))"
        "MultiFactorConfig ''ENABLED''" "[]"]
    update_wrong_type_fails_before_network
    [of "MultiFactorConfig ''ENABLED''" "example_service (\<lambda>req. HttpResponse 200 (Some (PyDict [])))"
        "Value (PyBool True)" "[]"]
    update_wrong_type_fails_before_network
    [of "MultiFactorConfig ''unknown''" "example_service (\<lambda>req. HttpResponse 200 (Some (PyDict [])))"
        "Value (PyBool True)" "[]"]
  by (simp add: example_service_def)

lemma build_payload_built:
  "build_payload svc (MultiFactorConfig m) (Value PyNone)
     = (case mfa_build_server_request svc m of
          Inl x \<Rightarrow> Inl (Propagated x)
        | Inr fragment \<Rightarrow> Inr [(''mfa'', fragment)])"
  "build_payload svc (Value PyNone) (EmailPrivacyConfig c)
     = (case epc_build_server_request svc c of
          Inl x \<Rightarrow> Inl (Propagated x)
        | Inr fragment \<Rightarrow> Inr [(''emailPrivacyConfig'', fragment)])"
  "build_payload svc (MultiFactorConfig m) (EmailPrivacyConfig c)
     = (case mfa_build_server_request svc m of
          Inl x \<Rightarrow> Inl (Propagated x)
        | Inr mfa_fragment \<Rightarrow>
            (case epc_build_server_request svc c of
               Inl x \<Rightarrow> Inl (Propagated x)
             | Inr epc_fragment \<Rightarrow>
                 Inr [(''mfa'', mfa_fragment), (''emailPrivacyConfig'', epc_fragment)]))"
  by (simp_all add: build_payload_def split: sum.split)

text \<open>
  C10. In \<open>update_project_config\<close> the \<open>ValueError\<close> "At least one parameter must be
  specified for update." is raised exactly when both arguments are \<open>None\<close>. Every argument
  that is supplied and passes its \<open>isinstance\<close> check puts its key into the payload: when
  such an argument serialises (and the other argument is absent or does the same), the
  payload is built, with the fragment under the argument's key, and the call goes out
  to the network; when its \<open>build_server_request\<close> raises, that exception is the result
  and not the empty-payload error. A payload that is built holds the key of each such
  argument and is not empty.
\<close>

theorem update_empty_payload_only_without_arguments:
  "(fst (update_project_config svc a b net)
      = Inl (ValueError (Literal ''At least one parameter must be specified for update.''))
    \<longleftrightarrow> a = Value PyNone \<and> b = Value PyNone)
   \<and> (\<forall>payload. build_payload svc a b = Inr payload \<longrightarrow>
         payload \<noteq> []
         \<and> dict_keys payload
             = (if isinstance_MultiFactorConfig a then [''mfa''] else [])
               @ (if isinstance_EmailPrivacyConfig b then [''emailPrivacyConfig''] else []))
   \<and> (mfa_build_server_request svc m = Inr mfa_fragment \<longrightarrow>
         build_payload svc (MultiFactorConfig m) (Value PyNone) = Inr [(''mfa'', mfa_fragment)]
         \<and> snd (update_project_config svc (MultiFactorConfig m) (Value PyNone) net)
             = net @ [patch_request [(''mfa'', mfa_fragment)]
                        (''updateMask=''
                           @ join '','' (build_update_mask [(''mfa'', mfa_fragment)]))])
   \<and> (epc_build_server_request svc c = Inr epc_fragment \<longrightarrow>
         build_payload svc (Value PyNone) (EmailPrivacyConfig c)
           = Inr [(''emailPrivacyConfig'', epc_fragment)]
         \<and> snd (update_project_config svc (Value PyNone) (EmailPrivacyConfig c) net)
             = net @ [patch_request [(''emailPrivacyConfig'', epc_fragment)]
                        (''updateMask=''
                           @ join '','' (build_update_mask [(''emailPrivacyConfig'', epc_fragment)]))])
   \<and> (mfa_build_server_request svc m = Inr mfa_fragment
       \<and> epc_build_server_request svc c = Inr epc_fragment \<longrightarrow>
         build_payload svc (MultiFactorConfig m) (EmailPrivacyConfig c)
           = Inr [(''mfa'', mfa_fragment), (''emailPrivacyConfig'', epc_fragment)]
         \<and> snd (update_project_config svc (MultiFactorConfig m) (EmailPrivacyConfig c) net)
             = net @ [patch_request [(''mfa'', mfa_fragment), (''emailPrivacyConfig'', epc_fragment)]
                        (''updateMask=''
                           @ join '','' (build_update_mask
                                [(''mfa'', mfa_fragment), (''emailPrivacyConfig'', epc_fragment)]))])
   \<and> (mfa_build_server_request svc m = Inl x \<longrightarrow>
         update_project_config svc (MultiFactorConfig m) b net = (Inl (Propagated x), net))
   \<and> (epc_build_server_request svc c = Inl x \<longrightarrow>
         update_project_config svc (Value PyNone) (EmailPrivacyConfig c) net
           = (Inl (Propagated x), net)
         \<and> (mfa_build_server_request svc m = Inr mfa_fragment \<longrightarrow>
              update_project_config svc (MultiFactorConfig m) (EmailPrivacyConfig c) net
                = (Inl (Propagated x), net)))"
proof -
  have only_none: "fst (update_project_config svc a b net)
      = Inl (ValueError (Literal ''At least one parameter must be specified for update.''))
    \<longleftrightarrow> a = Value PyNone \<and> b = Value PyNone"
  proof (cases "build_payload svc a b")
    case (Inl e)
    then show ?thesis
      using build_payload_empty_iff [of svc a b] by (simp add: update_stops_on_error)
  next
    case (Inr payload)
    then have "\<not> (a = Value PyNone \<and> b = Value PyNone)"
      using build_payload_empty_iff [of svc a b] by auto
    moreover have "fst (update_project_config svc a b net)
        \<noteq> Inl (ValueError (Literal ''At least one parameter must be specified for update.''))"
      using Inr
      by (simp add: update_project_config_def Let_def ProjectConfig_init_no_literal
          split: sum.split raised.split)
    ultimately show ?thesis by simp
  qed
  have keys: "\<forall>payload. build_payload svc a b = Inr payload \<longrightarrow>
         payload \<noteq> []
         \<and> dict_keys payload
             = (if isinstance_MultiFactorConfig a then [''mfa''] else [])
               @ (if isinstance_EmailPrivacyConfig b then [''emailPrivacyConfig''] else [])"
  proof (intro allI impI)
    fix payload
    assume built: "build_payload svc a b = Inr payload"
    have "payload \<noteq> []"
      using built by (auto simp: build_payload_def Let_def split: sum.splits if_splits)
    then show "payload \<noteq> []
         \<and> dict_keys payload
             = (if isinstance_MultiFactorConfig a then [''mfa''] else [])
               @ (if isinstance_EmailPrivacyConfig b then [''emailPrivacyConfig''] else [])"
      using build_payload_keys [OF built] by simp
  qed
  have mfa_only: "mfa_build_server_request svc m = Inr mfa_fragment \<longrightarrow>
         build_payload svc (MultiFactorConfig m) (Value PyNone) = Inr [(''mfa'', mfa_fragment)]
         \<and> snd (update_project_config svc (MultiFactorConfig m) (Value PyNone) net)
             = net @ [patch_request [(''mfa'', mfa_fragment)]
                        (''updateMask=''
                           @ join '','' (build_update_mask [(''mfa'', mfa_fragment)]))]"
  proof
    assume "mfa_build_server_request svc m = Inr mfa_fragment"
    then have built: "build_payload svc (MultiFactorConfig m) (Value PyNone)
                        = Inr [(''mfa'', mfa_fragment)]"
      by (simp add: build_payload_built(1))
    show "build_payload svc (MultiFactorConfig m) (Value PyNone) = Inr [(''mfa'', mfa_fragment)]
         \<and> snd (update_project_config svc (MultiFactorConfig m) (Value PyNone) net)
             = net @ [patch_request [(''mfa'', mfa_fragment)]
                        (''updateMask=''
                           @ join '','' (build_update_mask [(''mfa'', mfa_fragment)]))]"
      using built update_calls_once [OF built, of net] by simp
  qed
  have epc_only: "epc_build_server_request svc c = Inr epc_fragment \<longrightarrow>
         build_payload svc (Value PyNone) (EmailPrivacyConfig c)
           = Inr [(''emailPrivacyConfig'', epc_fragment)]
         \<and> snd (update_project_config svc (Value PyNone) (EmailPrivacyConfig c) net)
             = net @ [patch_request [(''emailPrivacyConfig'', epc_fragment)]
                        (''updateMask=''
                           @ join '','' (build_update_mask [(''emailPrivacyConfig'', epc_fragment)]))]"
  proof
    assume "epc_build_server_request svc c = Inr epc_fragment"
    then have built: "build_payload svc (Value PyNone) (EmailPrivacyConfig c)
                        = Inr [(''emailPrivacyConfig'', epc_fragment)]"
      by (simp add: build_payload_built(2))
    show "build_payload svc (Value PyNone) (EmailPrivacyConfig c)
           = Inr [(''emailPrivacyConfig'', epc_fragment)]
         \<and> snd (update_project_config svc (Value PyNone) (EmailPrivacyConfig c) net)
             = net @ [patch_request [(''emailPrivacyConfig'', epc_fragment)]
                        (''updateMask=''
                           @ join '','' (build_update_mask [(''emailPrivacyConfig'', epc_fragment)]))]"
      using built update_calls_once [OF built, of net] by simp
  qed
  have both: "mfa_build_server_request svc m = Inr mfa_fragment
       \<and> epc_build_server_request svc c = Inr epc_fragment \<longrightarrow>
         build_payload svc (MultiFactorConfig m) (EmailPrivacyConfig c)
           = Inr [(''mfa'', mfa_fragment), (''emailPrivacyConfig'', epc_fragment)]
         \<and> snd (update_project_config svc (MultiFactorConfig m) (EmailPrivacyConfig c) net)
             = net @ [patch_request [(''mfa'', mfa_fragment), (''emailPrivacyConfig'', epc_fragment)]
                        (''updateMask=''
                           @ join '','' (build_update_mask
                                [(''mfa'', mfa_fragment), (''emailPrivacyConfig'', epc_fragment)]))]"
  proof
    assume "mfa_build_server_request svc m = Inr mfa_fragment
       \<and> epc_build_server_request svc c = Inr epc_fragment"
    then have built: "build_payload svc (MultiFactorConfig m) (EmailPrivacyConfig c)
            = Inr [(''mfa'', mfa_fragment), (''emailPrivacyConfig'', epc_fragment)]"
      by (simp add: build_payload_built(3))
    show "build_payload svc (MultiFactorConfig m) (EmailPrivacyConfig c)
           = Inr [(''mfa'', mfa_fragment), (''emailPrivacyConfig'', epc_fragment)]
         \<and> snd (update_project_config svc (MultiFactorConfig m) (EmailPrivacyConfig c) net)
             = net @ [patch_request [(''mfa'', mfa_fragment), (''emailPrivacyConfig'', epc_fragment)]
                        (''updateMask=''
                           @ join '','' (build_update_mask
                                [(''mfa'', mfa_fragment), (''emailPrivacyConfig'', epc_fragment)]))]"
      using built update_calls_once [OF built, of net] by simp
  qed
  have mfa_raises: "mfa_build_server_request svc m = Inl x \<longrightarrow>
         update_project_config svc (MultiFactorConfig m) b net = (Inl (Propagated x), net)"
  proof
    assume "mfa_build_server_request svc m = Inl x"
    then have "build_payload svc (MultiFactorConfig m) b = Inl (Propagated x)"
      by (simp add: build_payload_def)
    then show "update_project_config svc (MultiFactorConfig m) b net = (Inl (Propagated x), net)"
      by (rule update_stops_on_error)
  qed
  have epc_raises: "epc_build_server_request svc c = Inl x \<longrightarrow>
         update_project_config svc (Value PyNone) (EmailPrivacyConfig c) net
           = (Inl (Propagated x), net)
         \<and> (mfa_build_server_request svc m = Inr mfa_fragment \<longrightarrow>
              update_project_config svc (MultiFactorConfig m) (EmailPrivacyConfig c) net
                = (Inl (Propagated x), net))"
  proof
    assume raises: "epc_build_server_request svc c = Inl x"
    then have "build_payload svc (Value PyNone) (EmailPrivacyConfig c) = Inl (Propagated x)"
      by (simp add: build_payload_built(2))
    then have first: "update_project_config svc (Value PyNone) (EmailPrivacyConfig c) net
           = (Inl (Propagated x), net)"
      by (rule update_stops_on_error)
    have second: "mfa_build_server_request svc m = Inr mfa_fragment \<longrightarrow>
              update_project_config svc (MultiFactorConfig m) (EmailPrivacyConfig c) net
                = (Inl (Propagated x), net)"
    proof
      assume "mfa_build_server_request svc m = Inr mfa_fragment"
      with raises have "build_payload svc (MultiFactorConfig m) (EmailPrivacyConfig c)
                          = Inl (Propagated x)"
        by (simp add: build_payload_built(3))
      then show "update_project_config svc (MultiFactorConfig m) (EmailPrivacyConfig c) net
                = (Inl (Propagated x), net)"
        by (rule update_stops_on_error)
    qed
    from first second show "update_project_config svc (Value PyNone) (EmailPrivacyConfig c) net
           = (Inl (Propagated x), net)
         \<and> (mfa_build_server_request svc m = Inr mfa_fragment \<longrightarrow>
              update_project_config svc (MultiFactorConfig m) (EmailPrivacyConfig c) net
                = (Inl (Propagated x), net))"
      by (rule conjI)
  qed
  from only_none keys mfa_only epc_only both mfa_raises epc_raises show ?thesis
    by (intro conjI)
qed

theorem update_empty_payload_only_without_arguments_witness:
  "build_payload (example_service (\<lambda>req. HttpResponse 200 (Some (PyDict []))))
      (Value PyNone) (EmailPrivacyConfig False)
     = Inr [(''emailPrivacyConfig'', PyDict [(''enableImprovedEmailPrivacy'', PyBool False)])]
   \<and> snd (update_project_config (example_service (\<lambda>req. HttpResponse 200 (Some (PyDict []))))
        (Value PyNone) (EmailPrivacyConfig False) [])
     = [patch_request [(''emailPrivacyConfig'', PyDict [(''enableImprovedEmailPrivacy'', PyBool False)])]
          ''updateMask=emailPrivacyConfig'']
   \<and> build_payload (example_service (\<lambda>req. HttpResponse 200 (Some (PyDict []))))
        (MultiFactorConfig ''ENABLED'') (EmailPrivacyConfig False)
     = Inr [(''mfa'', PyDict [(''state'', PyStr ''ENABLED'')]),
            (''emailPrivacyConfig'', PyDict [(''enableImprovedEmailPrivacy'', PyBool False)])]
   \<and> build_payload (example_service (\<lambda>req. HttpResponse 200 (Some (PyDict []))))
        (MultiFactorConfig ''ENABLED'') (Value PyNone)
     = Inr [(''mfa'', PyDict [(''state'', PyStr ''ENABLED'')])]
   \<and> fst (update_project_config (example_service (\<lambda>req. HttpResponse 200 (Some (PyDict []))))
        (Value PyNone) (EmailPrivacyConfig False) [])
     \<noteq> Inl (ValueError (Literal ''At least one parameter must be specified for update.''))
   \<and> update_project_config (example_service (\<lambda>req. HttpResponse 200 (Some (PyDict []))))
        (MultiFactorConfig ''unknown'') (Value PyNone) []
     = (Inl (Propagated (ForeignException ''ValueError'' ''invalid state'')), [])"
  using update_empty_payload_only_without_arguments
    [of "example_service (\<lambda>req. HttpResponse 200 (Some (PyDict [])))" "Value PyNone"
        "EmailPrivacyConfig False" "[]" "''ENABLED''" "PyDict [(''state'', PyStr ''ENABLED'')]"
        False "PyDict [(''enableImprovedEmailPrivacy'', PyBool False)]"]
    update_empty_payload_only_without_arguments
    [of "example_service (\<lambda>req. HttpResponse 200 (Some (PyDict [])))" "Value PyNone"
        "Value PyNone" "[]" "''unknown''" _ _ _ "ForeignException ''ValueError'' ''invalid state''"]
  by (simp add: example_service_def build_update_mask_def dict_keys_def)

section \<open>Failures of the HTTP exchange\<close>

lemma get_project_config_request_exception:
  "client_body svc get_request = Inl (RequestException err) \<Longrightarrow>
   get_project_config svc net
     = (Inl (BackendError (handle_auth_backend_error svc err)), net @ [get_request])"
  by (simp add: get_project_config_def)

lemma update_project_config_request_exception:
  "build_payload svc a b = Inr payload \<Longrightarrow>
   client_body svc (patch_request payload (''updateMask='' @ join '','' (build_update_mask payload)))
     = Inl (RequestException err) \<Longrightarrow>
   update_project_config svc a b net
     = (Inl (BackendError (handle_auth_backend_error svc err)),
        net @ [patch_request payload (''updateMask='' @ join '','' (build_update_mask payload))])"
  by (simp add: update_project_config_def Let_def)

lemma JsonHttpClient_body_network_failure:
  "server req = NetworkFailure \<Longrightarrow>
   JsonHttpClient_body server req = Inl (RequestException ConnectionError)"
  by (simp add: JsonHttpClient_body_def)

lemma JsonHttpClient_body_status:
  "server req = HttpResponse status body \<Longrightarrow> \<not> (200 \<le> status \<and> status < 300) \<Longrightarrow>
   JsonHttpClient_body server req = Inl (RequestException (HTTPError status))"
  by (auto simp: JsonHttpClient_body_def)

lemma JsonHttpClient_body_malformed:
  "server req = HttpResponse status None \<Longrightarrow> 200 \<le> status \<Longrightarrow> status < 300 \<Longrightarrow>
   JsonHttpClient_body server req = Inl (RequestException (InvalidJSONError status))"
  by (simp add: JsonHttpClient_body_def)

text \<open>
  C8. When the HTTP exchange of a fetch or of an update fails (no response, a status
  outside 200..299, or a body that does not decode), the operation raises the error that
  the backend-error mapping makes of the transport error, which carries the status of
  the response; it returns no \<open>ProjectConfig\<close>, so no accessor is reached, and it has made
  the one call and no other.
\<close>

theorem transport_failure_raises_backend_error:
  assumes "client_body svc = JsonHttpClient_body server"
  shows "(server get_request = NetworkFailure \<longrightarrow>
            get_project_config svc net
              = (Inl (BackendError (handle_auth_backend_error svc ConnectionError)),
                 net @ [get_request]))
       \<and> (\<forall>status body.
            server get_request = HttpResponse status body \<and> \<not> (200 \<le> status \<and> status < 300) \<longrightarrow>
            get_project_config svc net
              = (Inl (BackendError (handle_auth_backend_error svc (HTTPError status))),
                 net @ [get_request]))
       \<and> (\<forall>status.
            server get_request = HttpResponse status None \<and> 200 \<le> status \<and> status < 300 \<longrightarrow>
            get_project_config svc net
              = (Inl (BackendError (handle_auth_backend_error svc (InvalidJSONError status))),
                 net @ [get_request]))
       \<and> (\<forall>payload req.
            build_payload svc a b = Inr payload
            \<and> req = patch_request payload (''updateMask='' @ join '','' (build_update_mask payload)) \<longrightarrow>
            (server req = NetworkFailure \<longrightarrow>
               update_project_config svc a b net
                 = (Inl (BackendError (handle_auth_backend_error svc ConnectionError)), net @ [req]))
            \<and> (\<forall>status body.
                 server req = HttpResponse status body \<and> \<not> (200 \<le> status \<and> status < 300) \<longrightarrow>
                 update_project_config svc a b net
                   = (Inl (BackendError (handle_auth_backend_error svc (HTTPError status))),
                      net @ [req]))
            \<and> (\<forall>status.
                 server req = HttpResponse status None \<and> 200 \<le> status \<and> status < 300 \<longrightarrow>
                 update_project_config svc a b net
                   = (Inl (BackendError (handle_auth_backend_error svc (InvalidJSONError status))),
                      net @ [req])))"
proof -
  have get_failure: "get_project_config svc net
          = (Inl (BackendError (handle_auth_backend_error svc err)), net @ [get_request])"
    if "JsonHttpClient_body server get_request = Inl (RequestException err)" for err
    using that assms by (simp add: get_project_config_request_exception)
  have update_failure: "update_project_config svc a b net
          = (Inl (BackendError (handle_auth_backend_error svc err)), net @ [req])"
    if "build_payload svc a b = Inr payload"
      and "req = patch_request payload (''updateMask='' @ join '','' (build_update_mask payload))"
      and "JsonHttpClient_body server req = Inl (RequestException err)" for err payload req
    using that assms update_project_config_request_exception [of svc a b payload err net]
    by simp
  show ?thesis
    using get_failure update_failure
    by (auto simp: JsonHttpClient_body_network_failure JsonHttpClient_body_status
        JsonHttpClient_body_malformed)
qed

theorem transport_failure_raises_backend_error_witness:
  "get_project_config (example_service (\<lambda>req. HttpResponse 404 None)) []
     = (Inl (BackendError (HTTPError 404)), [get_request])
   \<and> get_project_config (example_service (\<lambda>req. HttpResponse 200 None)) []
     = (Inl (BackendError (InvalidJSONError 200)), [get_request])
   \<and> get_project_config (example_service (\<lambda>req. NetworkFailure)) []
     = (Inl (BackendError ConnectionError), [get_request])
   \<and> update_project_config (example_service (\<lambda>req. HttpResponse 503 (Some (PyDict []))))
        (MultiFactorConfig ''ENABLED'') (Value PyNone) []
     = (Inl (BackendError (HTTPError 503)),
        [patch_request [(''mfa'', PyDict [(''state'', PyStr ''ENABLED'')])] ''updateMask=mfa''])"
  using transport_failure_raises_backend_error
    [of "example_service (\<lambda>req. HttpResponse 404 None)" "\<lambda>req. HttpResponse 404 None" "[]"
        "Value PyNone" "Value PyNone"]
    transport_failure_raises_backend_error
    [of "example_service (\<lambda>req. HttpResponse 200 None)" "\<lambda>req. HttpResponse 200 None" "[]"
        "Value PyNone" "Value PyNone"]
    transport_failure_raises_backend_error
    [of "example_service (\<lambda>req. NetworkFailure)" "\<lambda>req. NetworkFailure" "[]"
        "Value PyNone" "Value PyNone"]
    transport_failure_raises_backend_error
    [of "example_service (\<lambda>req. HttpResponse 503 (Some (PyDict [])))"
        "\<lambda>req. HttpResponse 503 (Some (PyDict []))" "[]"
        "MultiFactorConfig ''ENABLED''" "Value PyNone"]
  by (simp add: example_service_def build_payload_def build_update_mask_def dict_keys_def)

text \<open>
  A body that decodes to something other than a mapping is no transport failure: the
  client returns it, and the error is the \<open>ValueError\<close> of the \<open>ProjectConfig\<close>
  constructor.
\<close>

lemma get_project_config_non_mapping_body:
  "client_body svc get_request = Inr body \<Longrightarrow> \<not> isinstance_dict body \<Longrightarrow>
   get_project_config svc net
     = (Inl (ValueError (Format ''Invalid data argument in Project constructor: {0}'' body)),
        net @ [get_request])"
  by (cases body) (simp_all add: get_project_config_def ProjectConfig_init_def)

end
